theory Spec2Isabelle
  imports Complex_Main "HOL-Library.Multiset"
begin

section \<open>Data model\<close>

subsection \<open>Dates and datetimes\<close>

text \<open>
  Python's \<open>datetime.date\<close> carries a year, a month and a day;
  \<open>datetime.datetime\<close> is its subclass and adds the time of day. The record
  extension mirrors the subclassing, so every \<open>datetime\<close> has the three date
  fields as well.
\<close>

record date =
  year :: nat
  month :: nat
  day :: nat

record datetime = date +
  hour :: nat
  minute :: nat
  second :: nat
  microsecond :: nat

text \<open>
  The column \<open>Transaction.date\<close> is declared \<open>Column(Date)\<close> (models.py, line 17)
  while the request schema declares \<open>date: datetime\<close> (schemas.py, line 12). A
  \<open>Date\<close> column binds a value by reading its \<open>year\<close>, \<open>month\<close> and \<open>day\<close>
  attributes only, and a row read back from the table carries a plain date.
\<close>

definition date_of :: "'a date_scheme \<Rightarrow> date" where
  "date_of v = \<lparr>year = year v, month = month v, day = day v\<rparr>"

text \<open>
  Chronological order of dates. The table stores a date as the text
  \<open>YYYY-MM-DD\<close>, zero padded, and \<open>ORDER BY\<close> compares these texts; on the years
  Python admits (1 to 9999) that is the lexicographic order of (year, month, day).
\<close>

definition date_le :: "date \<Rightarrow> date \<Rightarrow> bool" where
  "date_le a b =
     (year a < year b \<or>
      (year a = year b \<and> (month a < month b \<or> (month a = month b \<and> day a \<le> day b))))"

subsection \<open>Text, floats and stored integers\<close>

text \<open>
  A Python \<open>str\<close> is a sequence of Unicode code points. Text whose characters the
  program looks at or builds (the stock symbol, the detail of an HTTP error) is a
  list of code points; \<open>str\<close> turns a literal into one. Text the program only
  compares, stores and measures keeps the type \<open>string\<close>, one list element for
  each character.
\<close>

type_synonym unicode = "nat list"

definition str :: "string \<Rightarrow> unicode" where
  "str s = map of_char s"

text \<open>
  A Python float is a number, an infinity or NaN. The program only stores and
  returns the amount; what matters is that the store binds NaN as \<open>NULL\<close>.
\<close>

datatype pyfloat = Num real | PosInf | NegInf | NaN


subsection \<open>Request schemas (backend/schemas.py) and table rows (backend/models.py)\<close>

text \<open>
  \<open>schemas.TransactionBase\<close>, of which \<open>TransactionCreate\<close> is an unchanged
  subclass.
\<close>

record transaction_create =
  tc_type :: string
  tc_category :: string
  tc_amount :: pyfloat
  tc_date :: datetime

text \<open>\<open>models.Transaction\<close>: one row of the table \<open>transactions\<close>.\<close>

record transaction =
  tx_id :: int
  tx_type :: string
  tx_category :: string
  tx_amount :: pyfloat
  tx_date :: date


record login_request =
  lr_email :: string
  lr_password :: string

text \<open>
  \<open>models.User\<close>: one row of the table \<open>users\<close>. \<open>created_at\<close> is the
  server default \<open>now()\<close>, kept as seconds since the epoch.
\<close>

record user =
  user_id :: int
  email :: string
  hashed_password :: string
  created_at :: int

text \<open>
  The store: the two tables, each as the list of its rows in storage (rowid) order.
  Every handler commits before it returns, so a handler maps a store to a store.
\<close>

record db =
  transactions :: "transaction list"
  users :: "user list"

text \<open>
  \<open>fastapi.HTTPException(status_code, detail)\<close> is the error the handlers raise
  themselves. The other exceptions are raised by what a handler or the framework
  calls and are caught by no handler: the framework's validation error, the
  password context's \<open>PasswordSizeError\<close> and \<open>UnknownHashError\<close>, the store's
  \<open>IntegrityError\<close> (a constraint of a table is violated) and \<open>OverflowError\<close>
  (an integer parameter does not fit 64 bits), and any other error.
\<close>

datatype http_exception = HTTPException (status_code : nat) (detail : unicode)

datatype exn =
    HTTPError http_exception
  | ValidationError string
  | UnexpectedError string
  | PasswordSizeError
  | UnknownHashError
  | IntegrityError
  | OverflowError

subsection \<open>Primary keys\<close>

text \<open>
  Both tables declare \<open>id = Column(Integer, primary_key=True)\<close> and no handler
  supplies an id, so the store assigns it: 1 in an empty table, otherwise one more
  than the largest id present. (A table whose largest id is the largest 64-bit
  integer, where the store draws an unused id at random, is outside this model.)
\<close>

fun max_rowid :: "int list \<Rightarrow> int" where
  "max_rowid [] = 0"
| "max_rowid [x] = x"
| "max_rowid (x # y # ys) = max x (max_rowid (y # ys))"

definition next_rowid :: "int list \<Rightarrow> int" where
  "next_rowid ids = (if ids = [] then 1 else max_rowid ids + 1)"

section \<open>Transaction handlers (backend/main.py)\<close>

text \<open>
  \<open>create_transaction\<close> (lines 100 to 118): builds the row from the four fields of
  the payload, adds it, commits and returns the refreshed row, which then carries
  its id and the date as the column holds it. The column \<open>amount\<close> is declared
  \<open>nullable=False\<close> (models.py, line 16) and a NaN amount is bound as \<open>NULL\<close>,
  so for such a payload \<open>db.commit()\<close> raises \<open>IntegrityError\<close> and no row is
  stored. The result pairs the outcome with the store afterwards.
\<close>

definition create_transaction :: "db \<Rightarrow> transaction_create \<Rightarrow> (exn + transaction) \<times> db" where
  "create_transaction d tx =
     (let db_tx = \<lparr>tx_id = next_rowid (map tx_id (transactions d)),
                   tx_type = tc_type tx,
                   tx_category = tc_category tx,
                   tx_amount = tc_amount tx,
                   tx_date = date_of (tc_date tx)\<rparr>
      in if tx_amount db_tx = NaN then (Inl IntegrityError, d)
         else (Inr db_tx, d\<lparr>transactions := transactions d @ [db_tx]\<rparr>))"

text \<open>
  \<open>order_by(Transaction.date.desc())\<close>: the rows by date, latest first. SQL leaves
  the order of rows with equal dates open; this model keeps them in storage order,
  and no theorem below relies on that choice.
\<close>

fun insort_desc :: "transaction \<Rightarrow> transaction list \<Rightarrow> transaction list" where
  "insort_desc t [] = [t]"
| "insort_desc t (u # us) =
     (if date_le (tx_date u) (tx_date t) then t # u # us else u # insort_desc t us)"

fun order_by_date_desc :: "transaction list \<Rightarrow> transaction list" where
  "order_by_date_desc [] = []"
| "order_by_date_desc (t # ts) = insort_desc t (order_by_date_desc ts)"

text \<open>\<open>list_transactions\<close> (lines 121 to 124).\<close>

definition list_transactions :: "db \<Rightarrow> transaction list" where
  "list_transactions d = order_by_date_desc (transactions d)"


section \<open>Credential service (backend/auth.py)\<close>

text \<open>
  \<open>pwd_context\<close> is a \<open>passlib\<close> context for \<open>pbkdf2_sha256\<close>. The library is
  not part of the program, so its key derivation is a parameter: \<open>cc_hash\<close> maps
  the salt a call draws and the password to the hash string, \<open>cc_identify\<close> tells
  whether a stored string is a hash of the context's scheme, and \<open>cc_verify\<close>
  checks a password against such a hash. What the context does around them is
  written out: it refuses a password of more than 4096 characters with
  \<open>PasswordSizeError\<close>, in \<open>hash\<close> and in \<open>verify\<close>, and \<open>verify\<close> raises
  \<open>UnknownHashError\<close> for a stored string it cannot identify.
\<close>

record crypt_context =
  cc_hash :: "string \<Rightarrow> string \<Rightarrow> string"
  cc_identify :: "string \<Rightarrow> bool"
  cc_verify :: "string \<Rightarrow> string \<Rightarrow> bool"

definition MAX_PASSWORD_SIZE :: nat where
  "MAX_PASSWORD_SIZE = 4096"

definition get_password_hash :: "crypt_context \<Rightarrow> string \<Rightarrow> string \<Rightarrow> exn + string" where
  "get_password_hash pwd_context salt password =
     (if MAX_PASSWORD_SIZE < length password then Inl PasswordSizeError
      else Inr (cc_hash pwd_context salt password))"

definition verify_password :: "crypt_context \<Rightarrow> string \<Rightarrow> string \<Rightarrow> exn + bool" where
  "verify_password pwd_context plain_password hashed =
     (if \<not> cc_identify pwd_context hashed then Inl UnknownHashError
      else if MAX_PASSWORD_SIZE < length plain_password then Inl PasswordSizeError
      else Inr (cc_verify pwd_context plain_password hashed))"

text \<open>The three configuration constants (lines 30 to 32).\<close>

definition SECRET_KEY :: string where
  "SECRET_KEY = ''super-secret-key-change-me''"

definition ALGORITHM :: string where
  "ALGORITHM = ''HS256''"

definition ACCESS_TOKEN_EXPIRE_MINUTES :: int where
  "ACCESS_TOKEN_EXPIRE_MINUTES = 30"

text \<open>
  Instants and durations are whole seconds (instants since the epoch), so adding a
  \<open>timedelta\<close> to \<open>datetime.utcnow()\<close> is integer addition. A claim of a token is
  a string or an instant; the claims are a dictionary from names to such values.
\<close>

datatype claim_value = Str string | Time int

type_synonym claims = "string \<rightharpoonup> claim_value"

definition timedelta_minutes :: "int \<Rightarrow> int" where
  "timedelta_minutes m = m * 60"

text \<open>
  \<open>jose.jwt\<close> is a library as well. A token is modelled symbolically: the claims,
  the algorithm and the key it was signed with. \<open>jwt_decode\<close> is the library's
  check at instant \<open>when\<close>: it gives the claims back only for the signing key, an
  accepted algorithm and an expiry that has not passed.
\<close>

datatype jwt = JWT (jwt_claims : claims) (jwt_key : string) (jwt_algorithm : string)

definition jwt_encode :: "claims \<Rightarrow> string \<Rightarrow> string \<Rightarrow> jwt" where
  "jwt_encode c key algorithm = JWT c key algorithm"

datatype jwt_error = JWTError | ExpiredSignatureError

definition jwt_decode :: "int \<Rightarrow> jwt \<Rightarrow> string \<Rightarrow> string list \<Rightarrow> jwt_error + claims" where
  "jwt_decode when token key algorithms =
     (if jwt_key token \<noteq> key \<or> jwt_algorithm token \<notin> set algorithms then Inl JWTError
      else case jwt_claims token ''exp'' of
             Some (Time e) \<Rightarrow> if e < when then Inl ExpiredSignatureError else Inr (jwt_claims token)
           | _ \<Rightarrow> Inr (jwt_claims token))"

text \<open>
  \<open>create_access_token\<close> (lines 39 to 48), with the clock reading \<open>utcnow\<close> as
  an argument. \<open>expires_delta if expires_delta else ...\<close> tests truthiness: both
  \<open>None\<close> and a zero duration select the default.
\<close>

definition create_access_token :: "int \<Rightarrow> claims \<Rightarrow> int option \<Rightarrow> jwt" where
  "create_access_token utcnow data expires_delta =
     (let to_encode = data;
          expire = utcnow +
            (case expires_delta of
               Some delta \<Rightarrow> if delta \<noteq> 0 then delta
                             else timedelta_minutes ACCESS_TOKEN_EXPIRE_MINUTES
             | None \<Rightarrow> timedelta_minutes ACCESS_TOKEN_EXPIRE_MINUTES);
          to_encode = to_encode(''exp'' \<mapsto> Time expire)
      in jwt_encode to_encode SECRET_KEY ALGORITHM)"

section \<open>Auth handlers (backend/main.py)\<close>


text \<open>\<open>schemas.Token\<close>, the body of a successful login.\<close>

record token =
  access_token :: jwt
  token_type :: string

text \<open>
  \<open>login\<close> (lines 69 to 82). It only reads the store. In
  \<open>not user or not verify_password(...)\<close> the \<open>or\<close> short-circuits: the password
  is verified only when a user with the email exists, and an exception of that
  call is not caught.
\<close>

definition login :: "crypt_context \<Rightarrow> int \<Rightarrow> db \<Rightarrow> login_request \<Rightarrow> exn + token" where
  "login pwd_context utcnow d payload =
     (case find (\<lambda>u. email u = lr_email payload) (users d) of
        None \<Rightarrow> Inl (HTTPError (HTTPException 400 (str ''Incorrect email or password'')))
      | Some usr \<Rightarrow>
          (case verify_password pwd_context (lr_password payload) (hashed_password usr) of
             Inl e \<Rightarrow> Inl e
           | Inr verified \<Rightarrow>
               if \<not> verified
               then Inl (HTTPError (HTTPException 400 (str ''Incorrect email or password'')))
               else Inr \<lparr>access_token =
                           create_access_token utcnow [''sub'' \<mapsto> Str (email usr)] None,
                         token_type = ''bearer''\<rparr>))"

section \<open>The session dependency (backend/main.py, get_db)\<close>









section \<open>Stock price lookup (backend/main.py)\<close>





section \<open>Sample data for the worked examples\<close>


text \<open>
  A password context whose hash strings have the shape of the scheme's (its name,
  the salt, then a digest, here the reversed password), and a store holding the one
  user alice@example.com, registered with the password \<open>secret\<close> and the salt
  \<open>c2FsdA\<close>.
\<close>

definition sample_context :: crypt_context where
  "sample_context =
     \<lparr>cc_hash = (\<lambda>salt password. ''$pbkdf2-sha256$'' @ salt @ ''$'' @ rev password),
      cc_identify = (\<lambda>hashed. take 15 hashed = ''$pbkdf2-sha256$''),
      cc_verify = (\<lambda>password hashed. take (Suc (length password)) (rev hashed) = password @ ''$'')\<rparr>"

definition sample_db :: db where
  "sample_db =
     \<lparr>transactions = [],
      users = [\<lparr>user_id = 1, email = ''alice@example.com'',
                hashed_password = ''$pbkdf2-sha256$c2FsdA$terces'',
                created_at = 1700000000\<rparr>]\<rparr>"

section \<open>Properties of the transaction handlers\<close>

lemma date_le_total: "date_le a b \<or> date_le b a"
  by (auto simp: date_le_def)

lemma date_le_trans: "date_le a b \<Longrightarrow> date_le b c \<Longrightarrow> date_le a c"
  by (auto simp: date_le_def)

lemma mset_insort_desc: "mset (insort_desc t us) = add_mset t (mset us)"
  by (induction us) auto

lemma set_insort_desc: "set (insort_desc t us) = insert t (set us)"
  by (induction us) auto

lemma mset_order_by_date_desc: "mset (order_by_date_desc ts) = mset ts"
  by (induction ts) (auto simp: mset_insort_desc)


lemma sorted_insort_desc:
  "sorted_wrt (\<lambda>a b. date_le (tx_date b) (tx_date a)) us \<Longrightarrow>
   sorted_wrt (\<lambda>a b. date_le (tx_date b) (tx_date a)) (insort_desc t us)"
proof (induction us)
  case Nil
  then show ?case by simp
next
  case (Cons u us)
  show ?case
  proof (cases "date_le (tx_date u) (tx_date t)")
    case True
    with Cons.prems show ?thesis
      by (auto intro: date_le_trans)
  next
    case False
    then have "date_le (tx_date t) (tx_date u)"
      using date_le_total by blast
    with False Cons show ?thesis
      by (auto simp: set_insort_desc)
  qed
qed

lemma sorted_order_by_date_desc:
  "sorted_wrt (\<lambda>a b. date_le (tx_date b) (tx_date a)) (order_by_date_desc ts)"
  by (induction ts) (auto intro: sorted_insort_desc)






text \<open>
  Claim C1. For every store, \<open>list_transactions\<close> returns exactly the stored
  rows (each as often as it is stored), latest date first: of any two rows of the
  result, the later one's date is not after the earlier one's. In particular, three
  transactions dated 2024-01-01, 2024-03-01 and 2024-02-01 (with any numbers as
  amounts), created in that order in an empty table, are listed with the dates
  2024-03-01, 2024-02-01, 2024-01-01. The statement fixes nothing about rows of
  equal date.
\<close>

theorem list_transactions_date_desc:
  "mset (list_transactions d) = mset (transactions d) \<and>
   sorted_wrt (\<lambda>a b. date_le (tx_date b) (tx_date a)) (list_transactions d) \<and>
   map tx_date
     (list_transactions
       (snd (create_transaction
         (snd (create_transaction
           (snd (create_transaction (d\<lparr>transactions := []\<rparr>)
             (p\<lparr>tc_amount := Num a,
                tc_date := \<lparr>year = 2024, month = 1, day = 1,
                  hour = 0, minute = 0, second = 0, microsecond = 0\<rparr>\<rparr>)))
           (q\<lparr>tc_amount := Num b,
              tc_date := \<lparr>year = 2024, month = 3, day = 1,
                hour = 0, minute = 0, second = 0, microsecond = 0\<rparr>\<rparr>)))
         (r\<lparr>tc_amount := Num c,
            tc_date := \<lparr>year = 2024, month = 2, day = 1,
              hour = 0, minute = 0, second = 0, microsecond = 0\<rparr>\<rparr>))))
   = [\<lparr>year = 2024, month = 3, day = 1\<rparr>,
      \<lparr>year = 2024, month = 2, day = 1\<rparr>,
      \<lparr>year = 2024, month = 1, day = 1\<rparr>]"
proof (intro conjI)
  show "mset (list_transactions d) = mset (transactions d)"
    by (simp add: list_transactions_def mset_order_by_date_desc)
  show "sorted_wrt (\<lambda>a b. date_le (tx_date b) (tx_date a)) (list_transactions d)"
    by (simp add: list_transactions_def sorted_order_by_date_desc)
  show "map tx_date
     (list_transactions
       (snd (create_transaction
         (snd (create_transaction
           (snd (create_transaction (d\<lparr>transactions := []\<rparr>)
             (p\<lparr>tc_amount := Num a,
                tc_date := \<lparr>year = 2024, month = 1, day = 1,
                  hour = 0, minute = 0, second = 0, microsecond = 0\<rparr>\<rparr>)))
           (q\<lparr>tc_amount := Num b,
              tc_date := \<lparr>year = 2024, month = 3, day = 1,
                hour = 0, minute = 0, second = 0, microsecond = 0\<rparr>\<rparr>)))
         (r\<lparr>tc_amount := Num c,
            tc_date := \<lparr>year = 2024, month = 2, day = 1,
              hour = 0, minute = 0, second = 0, microsecond = 0\<rparr>\<rparr>))))
   = [\<lparr>year = 2024, month = 3, day = 1\<rparr>,
      \<lparr>year = 2024, month = 2, day = 1\<rparr>,
      \<lparr>year = 2024, month = 1, day = 1\<rparr>]"
    by (simp add: list_transactions_def create_transaction_def Let_def date_of_def date_le_def)
qed















section \<open>Properties of the auth handlers\<close>

lemma find_email_None: "e \<notin> email ` set us \<Longrightarrow> find (\<lambda>u. email u = e) us = None"
  by (induction us) auto








text \<open>
  When the password is one the context accepts and the stored hash is one it
  identifies, a login with an unregistered email and a login with a registered
  email and a wrong password end in the same exception.
\<close>

lemma login_failures_equal:
  assumes "lr_email p \<notin> email ` set (users d)"
    and "find (\<lambda>u. email u = lr_email q) (users d) = Some usr"
    and "verify_password ctx (lr_password q) (hashed_password usr) = Inr False"
  shows "login ctx now d p = Inl (HTTPError (HTTPException 400 (str ''Incorrect email or password''))) \<and>
         login ctx now' d q = login ctx now d p"
  using assms by (simp add: login_def find_email_None)

text \<open>
  Claim C3 asks that a login with a registered email and a wrong password cannot be
  told from a login with an unregistered email. The handler gives both the same 400
  only while verifying the password raises nothing: in the sample store, where
  alice@example.com is registered with a hash \<open>get_password_hash\<close> produced and
  bob@example.com is not, the same wrong password of 4097 characters ends in
  \<open>PasswordSizeError\<close> for alice and in the 400 "Incorrect email or password"
  for bob. The two outcomes differ, so they tell whether the email is registered.
\<close>

theorem login_long_password_distinguishes:
  "find (\<lambda>u. email u = ''alice@example.com'') (users sample_db)
     = Some \<lparr>user_id = 1, email = ''alice@example.com'',
              hashed_password = ''$pbkdf2-sha256$c2FsdA$terces'', created_at = 1700000000\<rparr> \<and>
   get_password_hash sample_context ''c2FsdA'' ''secret'' = Inr ''$pbkdf2-sha256$c2FsdA$terces'' \<and>
   ''bob@example.com'' \<notin> email ` set (users sample_db) \<and>
   login sample_context 1700000300 sample_db
      \<lparr>lr_email = ''alice@example.com'', lr_password = replicate 4097 CHR ''x''\<rparr>
     = Inl PasswordSizeError \<and>
   login sample_context 1700000300 sample_db
      \<lparr>lr_email = ''bob@example.com'', lr_password = replicate 4097 CHR ''x''\<rparr>
     = Inl (HTTPError (HTTPException 400 (str ''Incorrect email or password'')))"
  by (simp add: sample_db_def sample_context_def login_def verify_password_def
      get_password_hash_def MAX_PASSWORD_SIZE_def)


section \<open>Properties of the credential service\<close>

text \<open>
  Claim C7. For every claims dictionary, \<open>create_access_token\<close> without an
  explicit lifetime signs, with \<open>SECRET_KEY\<close> and \<open>HS256\<close>, the dictionary
  updated with \<open>exp\<close> set to the instant of issuance plus 30 minutes (1800
  seconds); the update replaces an \<open>exp\<close> entry the caller may have supplied and
  leaves every other entry as it is. Decoding the token with the secret at any
  instant up to that expiry gives these claims back; for the subject a@b.com they
  are the subject a@b.com and the expiry.
\<close>

theorem create_access_token_default_expiry:
  "create_access_token utcnow data None =
     jwt_encode (data(''exp'' \<mapsto> Time (utcnow + 30 * 60))) SECRET_KEY ALGORITHM \<and>
   jwt_key (create_access_token utcnow data None) = SECRET_KEY \<and>
   (when \<le> utcnow + 30 * 60 \<longrightarrow>
      jwt_decode when (create_access_token utcnow data None) SECRET_KEY [ALGORITHM] =
        Inr (data(''exp'' \<mapsto> Time (utcnow + 30 * 60)))) \<and>
   (when \<le> utcnow + 30 * 60 \<longrightarrow>
      jwt_decode when (create_access_token utcnow [''sub'' \<mapsto> Str ''a@b.com''] None)
          SECRET_KEY [ALGORITHM] =
        Inr [''sub'' \<mapsto> Str ''a@b.com'', ''exp'' \<mapsto> Time (utcnow + 30 * 60)])"
  by (simp add: create_access_token_def jwt_decode_def jwt_encode_def Let_def
      timedelta_minutes_def ACCESS_TOKEN_EXPIRE_MINUTES_def)

text \<open>A token issued at 1700000000 and decoded 900 seconds later.\<close>

theorem create_access_token_default_expiry_witness:
  "(1700000900::int) \<le> 1700000000 + 30 * 60 \<and>
   jwt_decode 1700000900 (create_access_token 1700000000 [''sub'' \<mapsto> Str ''a@b.com''] None)
       SECRET_KEY [ALGORITHM] =
     Inr [''sub'' \<mapsto> Str ''a@b.com'', ''exp'' \<mapsto> Time 1700001800]"
  using create_access_token_default_expiry
    [of 1700000000 "[''sub'' \<mapsto> Str ''a@b.com'']" 1700000900,
      THEN conjunct2, THEN conjunct2, THEN conjunct1]
  by simp

section \<open>Properties of the session dependency\<close>


section \<open>Properties of the stock price lookup\<close>






end
